theory Spec2Isabelle
  imports Complex_Main "HOL-Library.Word"
begin

unbundle bit_operations_syntax

section \<open>Numbers, points and failures\<close>

text \<open>
  The program computes with \<open>float\<close> and \<open>double\<close>. Here a finite floating-point value
  is the real number it stands for (rounding is left out), and \<open>NonFin\<close> stands for every
  result that is no finite number: an infinity or a NaN. Sums, differences and products
  with a non-finite operand are non-finite again. The program only ever divides one
  finite value by another, so division takes two reals: a zero divisor gives an infinity
  or a NaN, never a trap.
\<close>

datatype fl = Fin real | NonFin

fun fadd :: "fl \<Rightarrow> fl \<Rightarrow> fl" where
  "fadd (Fin a) (Fin b) = Fin (a + b)"
| "fadd _ _ = NonFin"

fun fsub :: "fl \<Rightarrow> fl \<Rightarrow> fl" where
  "fsub (Fin a) (Fin b) = Fin (a - b)"
| "fsub _ _ = NonFin"

fun fmul :: "fl \<Rightarrow> fl \<Rightarrow> fl" where
  "fmul (Fin a) (Fin b) = Fin (a * b)"
| "fmul _ _ = NonFin"

definition fdiv :: "real \<Rightarrow> real \<Rightarrow> fl" where
  "fdiv a b = (if b = 0 then NonFin else Fin (a / b))"

text \<open>\<open>vm::PointLL\<close>: longitude first, latitude second.\<close>

type_synonym pointll = "fl \<times> fl"

text \<open>
  An assertion that fails ends the program, an exception nobody catches ends it too, and
  a \<open>float\<close> outside the range of \<open>uint32_t\<close> has no defined conversion.
\<close>

datatype failure = AssertionFailed | RuntimeError | ConversionOutOfRange

section \<open>Geometry utilities\<close>

text \<open>
  Modelled from the spec: \<open>Point2::AffineCombination\<close>, which belongs to the geometry
  library and is not in the source of this program. It is the planar combination
  \<open>a0 * p + a1 * p1\<close>, coordinate by coordinate, which gives the point "between a and b at
  the given fraction" when the coefficients are \<open>1 - frac\<close> and \<open>frac\<close>, as \<open>interp\<close> passes
  them.
\<close>

definition AffineCombination :: "pointll \<Rightarrow> fl \<Rightarrow> fl \<Rightarrow> pointll \<Rightarrow> pointll" where
  "AffineCombination p a0 a1 p1 =
     (fadd (fmul a0 (fst p)) (fmul a1 (fst p1)), fadd (fmul a0 (snd p)) (fmul a1 (snd p1)))"

definition interp :: "pointll \<Rightarrow> pointll \<Rightarrow> fl \<Rightarrow> pointll" where
  "interp a b fr = AffineCombination a (fsub (Fin 1) fr) fr b"

text \<open>
  The loop of \<open>chop_subsegment\<close>. \<open>Distance\<close> is \<open>PointLL::Distance\<close> (metres between
  two points), \<open>chop\<close> the length to cut off (the source's \<open>dist\<close>), \<open>d\<close> the length
  walked so far. The list is \<open>seg[i-1], seg[i], ..., seg[len-1]\<close> and \<open>result\<close> the vector
  built so far. The pair returned is \<open>result\<close> and what is left of \<open>seg\<close>: on \<open>break\<close>
  the points before \<open>seg[i-1]\<close> are erased and \<open>seg[i-1]\<close> is overwritten with the
  midpoint; when the loop runs out (\<open>i == len\<close>), \<open>seg\<close> is cleared.
\<close>

fun chop_loop ::
  "(pointll \<Rightarrow> pointll \<Rightarrow> real) \<Rightarrow> real \<Rightarrow> real \<Rightarrow> pointll list \<Rightarrow> pointll list
     \<Rightarrow> pointll list \<times> pointll list" where
  "chop_loop Distance chop d (a # b # rest) result =
     (let segdist = Distance a b in
      if d + segdist \<ge> chop then
        (let fr = fdiv (chop - d) segdist;
             midpoint = interp a b fr
         in (result @ [midpoint], midpoint # b # rest))
      else chop_loop Distance chop (d + segdist) (b # rest) (result @ [b]))"
| "chop_loop Distance chop d _ result = (result, [])"

text \<open>
  \<open>chop_subsegment(seg, dist)\<close>: the first component of the result is the vector
  returned, the second the value of \<open>seg\<close> afterwards.
\<close>

definition chop_subsegment ::
  "(pointll \<Rightarrow> pointll \<Rightarrow> real) \<Rightarrow> pointll list \<Rightarrow> 32 word
     \<Rightarrow> failure + (pointll list \<times> pointll list)" where
  "chop_subsegment Distance seg chop =
     (if length seg > 1
      then Inr (chop_loop Distance (real (unat chop)) 0 seg [seg ! 0])
      else Inl AssertionFailed)"

section \<open>The routing graph and the external services\<close>

type_synonym graphid = "64 word"

text \<open>
  \<open>vb::Use\<close>: the program only asks whether an edge is a ferry or a transit connection,
  so every other use is one constructor.
\<close>

datatype Use = kFerry | kTransitConnection | kOtherUse

text \<open>The attributes of \<open>vb::DirectedEdge\<close> that the program reads (\<open>length()\<close> is \<open>edge_length\<close>).\<close>

record DirectedEdge =
  use :: Use
  trans_up :: bool
  trans_down :: bool
  is_shortcut :: bool
  forwardaccess :: "32 word"
  reverseaccess :: "32 word"
  link :: bool
  roundabout :: bool
  classification :: nat
  edge_length :: "32 word"
  forward :: bool
  endnode :: graphid
  opp_index :: "32 word"

record NodeInfo =
  latlng :: pointll
  edge_index :: "32 word"

text \<open>
  A candidate edge of a \<open>vb::PathLocation\<close> (\<open>id\<close>, \<open>dist\<close>: the fraction along the edge,
  \<open>projected\<close>), the location itself, and one step of a path (\<open>thor::PathInfo\<close>).
\<close>

record PathEdge =
  pe_id :: graphid
  pe_dist :: real
  projected :: pointll

record PathLocation =
  pl_edges :: "PathEdge list"
  pl_latlng :: pointll

record PathInfo =
  edgeid :: graphid
  elapsed_time :: "32 word"

text \<open>
  A location reference point of a segment: \<open>coord().lng()\<close> and \<open>coord().lat()\<close> are read
  as \<open>int32_t\<close>, the other fields are unsigned.
\<close>

record LocationReference =
  lng :: "32 word"
  lat :: "32 word"
  bear :: nat
  start_frc :: nat
  start_fow :: nat
  lrp_length :: nat

record Segment =
  lrps :: "LocationReference list"

text \<open>An entry of a tile file is a marker, a segment, or neither.\<close>

datatype Entry = Marker | SegmentEntry Segment | EmptyEntry

text \<open>
  What the program takes from outside: the constants of the graph library (access bits
  and the two road classes it names), the geometry of \<open>PointLL\<close>, the graph reader
  (\<open>directededge g\<close> is \<open>GetGraphTile(g)->directededge(g)\<close>, \<open>edgeinfo_shape g\<close> the shape
  stored for edge \<open>g\<close>, \<open>node n\<close> the node record of \<open>n\<close>; every tile asked for is taken
  to be there), the arithmetic of \<open>GraphId\<close>,
  the nearest-edge search for one location, the path search (cleared before each call,
  so a function of origin and destination) and the reading of tile files
  (\<open>ParseFromIstream\<close> is \<open>None\<close> for a file that does not parse).
\<close>

record env =
  kAllAccess :: "32 word"
  kAutoAccess :: "32 word"
  kTruckAccess :: "32 word"
  kTaxiAccess :: "32 word"
  kBusAccess :: "32 word"
  kHOVAccess :: "32 word"
  RoadClass_kMotorway :: nat
  RoadClass_kTertiary :: nat
  Distance :: "pointll \<Rightarrow> pointll \<Rightarrow> real"
  DistanceSquared :: "pointll \<Rightarrow> pointll \<Rightarrow> real"
  HeadingAlongPolyline :: "pointll list \<Rightarrow> real \<Rightarrow> fl"
  directededge :: "graphid \<Rightarrow> DirectedEdge"
  edgeinfo_shape :: "graphid \<Rightarrow> pointll list"
  node :: "graphid \<Rightarrow> NodeInfo"
  Tile_Base :: "graphid \<Rightarrow> graphid"
  GraphId_plus :: "graphid \<Rightarrow> 64 word \<Rightarrow> graphid"
  Search :: "pointll \<Rightarrow> PathLocation list"
  GetBestPath :: "PathLocation \<Rightarrow> PathLocation \<Rightarrow> PathInfo list"
  GetTileId :: "string \<Rightarrow> graphid"
  ParseFromIstream :: "string \<Rightarrow> Entry list option"

section \<open>Bearing\<close>

text \<open>
  \<open>bearing(shape)\<close>: the heading over the first 20 metres, checked by the two assertions,
  rounded with \<open>std::round\<close> (for a value that is not negative, the floor of the value
  plus one half) and converted to \<open>uint16_t\<close>.
\<close>

definition bearing :: "env \<Rightarrow> pointll list \<Rightarrow> failure + 16 word" where
  "bearing E shape =
     (case HeadingAlongPolyline E shape 20 of
        NonFin \<Rightarrow> Inl AssertionFailed
      | Fin heading \<Rightarrow>
          if \<not> heading \<ge> 0 then Inl AssertionFailed
          else if \<not> heading < 360 then Inl AssertionFailed
          else Inr (word_of_int (round heading)))"

text \<open>
  \<open>uint32_t(x)\<close> for a \<open>float\<close>: the value truncated towards zero, defined when that is
  a value of the type.
\<close>

definition to_uint32 :: "real \<Rightarrow> failure + 32 word" where
  "to_uint32 x =
     (if x \<le> - 1 \<or> 2 ^ 32 \<le> x then Inl ConversionOutOfRange
      else Inr (if x < 0 then 0 else word_of_int \<lfloor>x\<rfloor>))"

text \<open>
  \<open>bearing(tile, edge_id, dist)\<close>, in two steps. \<open>chopped_shape\<close> is the value of the
  local \<open>shape\<close> when \<open>bearing(shape)\<close> is called: the edge's shape, reversed for an edge
  stored against its direction, with the first \<open>dist * edge_len\<close> metres chopped off when
  \<open>dist > 0\<close> (the source's \<open>dist\<close> is \<open>offset\<close> here). The program drops what
  \<open>chop_subsegment\<close> returns and goes on with what is left of \<open>shape\<close>.
\<close>

definition chopped_shape :: "env \<Rightarrow> graphid \<Rightarrow> real \<Rightarrow> failure + pointll list" where
  "chopped_shape E edge_id offset =
     (let edge = directededge E edge_id;
          edge_len = edge_length edge;
          shape = edgeinfo_shape E edge_id;
          shape = (if \<not> forward edge then rev shape else shape)
      in if offset > 0 then
           (case to_uint32 (offset * real (unat edge_len)) of
              Inl f \<Rightarrow> Inl f
            | Inr chop \<Rightarrow>
                (case chop_subsegment (Distance E) shape chop of
                   Inl f \<Rightarrow> Inl f
                 | Inr (chopped, shape) \<Rightarrow> Inr shape))
         else Inr shape)"

definition bearing_edge :: "env \<Rightarrow> graphid \<Rightarrow> real \<Rightarrow> failure + 16 word" where
  "bearing_edge E edge_id offset =
     (case chopped_shape E edge_id offset of
        Inl f \<Rightarrow> Inl f
      | Inr shape \<Rightarrow> bearing E shape)"

section \<open>Road-attribute classifiers\<close>

definition edge_pred :: "DirectedEdge \<Rightarrow> bool" where
  "edge_pred edge =
     (use edge \<noteq> kFerry \<and> use edge \<noteq> kTransitConnection \<and>
      \<not> trans_up edge \<and> \<not> trans_down edge)"

definition vehicular :: "env \<Rightarrow> 32 word" where
  "vehicular E = kAutoAccess E OR kTruckAccess E OR kTaxiAccess E OR kBusAccess E OR kHOVAccess E"

definition check_access :: "env \<Rightarrow> DirectedEdge \<Rightarrow> bool" where
  "check_access E edge =
     (let access = kAllAccess E AND forwardaccess edge in
      if is_shortcut edge then False
      else if edge_pred edge = False then False
      else (access AND vehicular E) \<noteq> 0)"

definition is_oneway :: "env \<Rightarrow> DirectedEdge \<Rightarrow> bool" where
  "is_oneway E e = ((reverseaccess e AND vehicular E) = 0)"

datatype FormOfWay =
  kUndefined | kMotorway | kMultipleCarriageway | kSingleCarriageway
  | kRoundabout | kTrafficSquare | kSlipRoad | kOther

definition form_of_way :: "env \<Rightarrow> DirectedEdge \<Rightarrow> FormOfWay" where
  "form_of_way E e =
     (let oneway = is_oneway E e;
          rclass = classification e
      in if link e then kSlipRoad
         else if roundabout e then kRoundabout
         else if rclass = RoadClass_kMotorway E \<and> oneway then kMotorway
         else if rclass \<le> RoadClass_kTertiary E \<and> oneway then kMultipleCarriageway
         else if rclass \<le> RoadClass_kTertiary E then kSingleCarriageway
         else kOther)"

section \<open>Segment matcher\<close>

definition coord_for_lrp :: "LocationReference \<Rightarrow> pointll" where
  "coord_for_lrp lrp =
     (Fin (real_of_int (sint (lng lrp)) / 10000000), Fin (real_of_int (sint (lat lrp)) / 10000000))"

text \<open>The warnings the program logs, one constructor for each \<open>LOG_WARN\<close>.\<close>

datatype warning =
  NoEdgeNearOrigin pointll
  | NoEdgeNearPoint pointll
  | NoRoute pointll pointll
  | RouteEndsFarAway pointll pointll pointll
  | EdgeNotAccessible graphid
  | EdgeNotAtOrigin graphid pointll
  | UnableToMatchSegment graphid

text \<open>
  One pass of the loop of \<open>match_edges\<close>, for the reference point \<open>lrp\<close> and its successor:
  a failure when the call of \<open>bearing\<close> fails, else a warning when the segment is
  discarded, else the edges of the path and the destination, which is the next origin.
  The score is left out: the program adds it up in a local variable and never reads it.
  The call of \<open>bearing\<close> that feeds it is kept, since its assertions can end the program.
\<close>

definition match_pair ::
  "env \<Rightarrow> PathLocation \<Rightarrow> LocationReference \<Rightarrow> LocationReference
     \<Rightarrow> failure + (warning + (graphid list \<times> PathLocation))" where
  "match_pair E origin lrp next_lrp =
     (let coord = coord_for_lrp lrp;
          next_coord = coord_for_lrp next_lrp;
          dests = Search E next_coord
      in if length dests = 0 then Inr (Inl (NoEdgeNearPoint next_coord))
         else
           let dest = dests ! 0;
               path = GetBestPath E origin dest
           in if path = [] then Inr (Inl (NoRoute next_coord coord))
              else
                let last_edge_id = edgeid (last path);
                    node_id = endnode (directededge E last_edge_id);
                    far = Distance E (latlng (node E node_id)) next_coord
                in if far > 10
                   then Inr (Inl (RouteEndsFarAway next_coord coord (latlng (node E node_id))))
                   else
                     let edge_id = edgeid (hd path);
                         edge = directededge E edge_id
                     in if \<not> check_access E edge then Inr (Inl (EdgeNotAccessible edge_id))
                        else
                          (case List.find (\<lambda>e. pe_id e = edge_id) (pl_edges origin) of
                             None \<Rightarrow> Inr (Inl (EdgeNotAtOrigin edge_id (pl_latlng origin)))
                           | Some e \<Rightarrow>
                               (case bearing_edge E edge_id (pe_dist e) of
                                  Inl f \<Rightarrow> Inl f
                                | Inr bear1 \<Rightarrow> Inr (Inr (map edgeid path, dest)))))"

text \<open>
  The loop over the pairs \<open>lrps(i), lrps(i+1)\<close>: the list holds the reference points from
  \<open>lrps(i)\<close> on, \<open>edges\<close> is the vector collected so far.
\<close>

fun match_loop ::
  "env \<Rightarrow> LocationReference list \<Rightarrow> PathLocation \<Rightarrow> graphid list
     \<Rightarrow> failure + (warning + graphid list)" where
  "match_loop E (lrp # next_lrp # rest) origin edges =
     (case match_pair E origin lrp next_lrp of
        Inl f \<Rightarrow> Inl f
      | Inr (Inl w) \<Rightarrow> Inr (Inl w)
      | Inr (Inr (found, dest)) \<Rightarrow> match_loop E (next_lrp # rest) dest (edges @ found))"
| "match_loop E _ origin edges = Inr (Inr edges)"

text \<open>\<open>std::unique\<close> followed by \<open>erase\<close>: of every run of equal neighbours the first stays.\<close>

fun unique :: "'a list \<Rightarrow> 'a list" where
  "unique [] = []"
| "unique [x] = [x]"
| "unique (x # y # xs) = (if x = y then unique (y # xs) else x # unique (y # xs))"

text \<open>
  \<open>match_edges\<close>: the warnings logged and the vector returned, or the failure of an
  assertion.
\<close>

definition match_edges :: "env \<Rightarrow> Segment \<Rightarrow> failure + (warning list \<times> graphid list)" where
  "match_edges E segment =
     (if \<not> length (lrps segment) \<ge> 2 then Inl AssertionFailed
      else
        let origin_coord = coord_for_lrp (lrps segment ! 0);
            origins = Search E origin_coord
        in if length origins = 0 then Inr ([NoEdgeNearOrigin origin_coord], [])
           else
             (case match_loop E (lrps segment) (origins ! 0) [] of
                Inl f \<Rightarrow> Inl f
              | Inr (Inl w) \<Rightarrow> Inr ([w], [])
              | Inr (Inr edges) \<Rightarrow> Inr ([], unique edges)))"

section \<open>Association builder\<close>

record TrafficAssociation =
  ta_segment_id :: graphid
  begin_percent :: fl
  end_percent :: fl

record partial_chunk =
  chunk_edges :: "graphid list"
  chunk_segments :: "graphid list"

text \<open>
  The state of \<open>edge_association\<close>. The tile builders belong to the graph library, so the
  state keeps what the program does with them: \<open>m_tiles\<close> lists the tiles that have a
  builder, \<open>added\<close> the calls of \<open>AddTrafficSegmentAssociation\<close> in the order they were
  made (the builder's tile, the edge, the vector passed), \<open>updated\<close> the builders told to
  write their tile. \<open>warnings\<close> is the log.
\<close>

record edge_association =
  m_tiles :: "graphid list"
  m_partial_chunks :: "partial_chunk list"
  added :: "(graphid \<times> graphid \<times> (TrafficAssociation \<times> fl) list) list"
  updated :: "graphid list"
  warnings :: "warning list"

definition approx_equal :: "env \<Rightarrow> pointll \<Rightarrow> pointll \<Rightarrow> bool" where
  "approx_equal E a b = (DistanceSquared E a b \<le> 100)"

definition lookup_end_coord :: "env \<Rightarrow> graphid \<Rightarrow> pointll" where
  "lookup_end_coord E edge_id = latlng (node E (endnode (directededge E edge_id)))"

definition lookup_start_coord :: "env \<Rightarrow> graphid \<Rightarrow> pointll" where
  "lookup_start_coord E edge_id =
     (let edge = directededge E edge_id;
          opp = opp_index edge;
          node_id = endnode edge;
          nd = node E node_id
      in lookup_end_coord E (GraphId_plus E (Tile_Base E node_id) (ucast (edge_index nd + opp))))"

text \<open>
  \<open>builder_for_edge\<close> makes the builder of the edge's tile when there is none yet. The
  state after it is returned; the builder it returns is the one of \<open>Tile_Base edge_id\<close>.
\<close>

definition builder_for_edge :: "env \<Rightarrow> graphid \<Rightarrow> edge_association \<Rightarrow> edge_association" where
  "builder_for_edge E edge_id st =
     (let tile_id = Tile_Base E edge_id in
      if tile_id \<in> set (m_tiles st) then st else st\<lparr>m_tiles := m_tiles st @ [tile_id]\<rparr>)"

text \<open>
  Modelled from the spec: \<open>GraphTileBuilder::AddTrafficSegmentAssociation\<close>, which belongs
  to the graph library. The builder of a tile accumulates the association records for
  the edges of the tile; here every call is written down as it is made.
\<close>

definition AddTrafficSegmentAssociation ::
  "graphid \<Rightarrow> graphid \<Rightarrow> (TrafficAssociation \<times> fl) list \<Rightarrow> edge_association \<Rightarrow> edge_association" where
  "AddTrafficSegmentAssociation tile_id edge_id assoc st =
     st\<lparr>added := added st @ [(tile_id, edge_id, assoc)]\<rparr>"

definition assign_one_to_one :: "env \<Rightarrow> graphid \<Rightarrow> graphid \<Rightarrow> edge_association \<Rightarrow> edge_association" where
  "assign_one_to_one E edge_id segment_id st =
     (let ta = \<lparr>ta_segment_id = segment_id, begin_percent = Fin 0, end_percent = Fin 1\<rparr>;
          assoc = [] @ [(ta, Fin 1)]
      in AddTrafficSegmentAssociation (Tile_Base E edge_id) edge_id assoc
           (builder_for_edge E edge_id st))"

text \<open>
  The first loop of \<open>assign_one_to_many\<close>: the running total of the edge lengths and the
  vector of the running totals.
\<close>

fun sum_lengths :: "env \<Rightarrow> graphid list \<Rightarrow> real \<Rightarrow> real list \<Rightarrow> real \<times> real list" where
  "sum_lengths E [] total_length lengths = (total_length, lengths)"
| "sum_lengths E (edge_id # rest) total_length lengths =
     (let total_length = total_length + real (unat (edge_length (directededge E edge_id)))
      in sum_lengths E rest total_length (lengths @ [total_length]))"

text \<open>The second loop, from index \<open>i\<close> on, with the vector \<open>assoc\<close> as the loop finds it.\<close>

function assign_loop ::
  "env \<Rightarrow> graphid list \<Rightarrow> graphid \<Rightarrow> real list \<Rightarrow> real \<Rightarrow> nat \<Rightarrow> fl
     \<Rightarrow> (TrafficAssociation \<times> fl) list \<Rightarrow> edge_association \<Rightarrow> edge_association" where
  "assign_loop E edges segment_id lengths total_length i begin_pct assoc st =
     (if i < length edges then
        (let edge_id = edges ! i;
             end_pct = (if i = length edges - 1 then Fin 1 else fdiv (lengths ! i) total_length);
             ta = \<lparr>ta_segment_id = segment_id, begin_percent = begin_pct, end_percent = end_pct\<rparr>;
             assoc = assoc @ [(ta, Fin 1)];
             st = AddTrafficSegmentAssociation (Tile_Base E edge_id) edge_id assoc
                    (builder_for_edge E edge_id st)
         in assign_loop E edges segment_id lengths total_length (i + 1) end_pct [] st)
      else st)"
  by pat_completeness auto
termination
  by (relation "measure (\<lambda>(E, edges, segment_id, lengths, total_length, i, rest). length edges - i)")
    auto

definition assign_one_to_many ::
  "env \<Rightarrow> graphid list \<Rightarrow> graphid \<Rightarrow> edge_association \<Rightarrow> edge_association" where
  "assign_one_to_many E edges segment_id st =
     (let (total_length, lengths) = sum_lengths E edges 0 []
      in assign_loop E edges segment_id lengths total_length 0 (Fin 0) [] st)"

definition save_chunk_for_later ::
  "graphid list \<Rightarrow> graphid \<Rightarrow> edge_association \<Rightarrow> edge_association" where
  "save_chunk_for_later edges segment_id st =
     st\<lparr>m_partial_chunks :=
          m_partial_chunks st @ [\<lparr>chunk_edges = edges, chunk_segments = [segment_id]\<rparr>]\<rparr>"

definition match_segment ::
  "env \<Rightarrow> graphid \<Rightarrow> Segment \<Rightarrow> edge_association \<Rightarrow> failure + edge_association" where
  "match_segment E segment_id segment st =
     (case match_edges E segment of
        Inl f \<Rightarrow> Inl f
      | Inr (logged, edges) \<Rightarrow>
          let st = st\<lparr>warnings := warnings st @ logged\<rparr> in
          if edges = [] then Inr (st\<lparr>warnings := warnings st @ [UnableToMatchSegment segment_id]\<rparr>)
          else
            let seg_start = coord_for_lrp (lrps segment ! 0);
                seg_end = coord_for_lrp (lrps segment ! (length (lrps segment) - 1));
                edges_start = lookup_start_coord E (hd edges);
                edges_end = lookup_end_coord E (last edges)
            in if approx_equal E seg_start edges_start \<and> approx_equal E seg_end edges_end
               then (if length edges = 1
                     then Inr (assign_one_to_one E (hd edges) segment_id st)
                     else Inr (assign_one_to_many E edges segment_id st))
               else Inr (save_chunk_for_later edges segment_id st))"

section \<open>Tile and run driver\<close>

text \<open>The loop of \<open>add_tile\<close> over the entries, \<open>entry_id\<close> counting every entry.\<close>

fun add_entries ::
  "env \<Rightarrow> graphid \<Rightarrow> nat \<Rightarrow> Entry list \<Rightarrow> edge_association \<Rightarrow> failure + edge_association" where
  "add_entries E base_id entry_id [] st = Inr st"
| "add_entries E base_id entry_id (Marker # rest) st = add_entries E base_id (entry_id + 1) rest st"
| "add_entries E base_id entry_id (EmptyEntry # rest) st = Inl AssertionFailed"
| "add_entries E base_id entry_id (SegmentEntry segment # rest) st =
     (case match_segment E (GraphId_plus E base_id (of_nat entry_id)) segment st of
        Inl f \<Rightarrow> Inl f
      | Inr st \<Rightarrow> add_entries E base_id (entry_id + 1) rest st)"

definition add_tile :: "env \<Rightarrow> string \<Rightarrow> edge_association \<Rightarrow> failure + edge_association" where
  "add_tile E file_name st =
     (case ParseFromIstream E file_name of
        None \<Rightarrow> Inl RuntimeError
      | Some entries \<Rightarrow> add_entries E (GetTileId E file_name) 0 entries st)"

text \<open>
  \<open>finish\<close> tells every builder to write its tile and drops the builders; the chunks
  stay where they are. The program goes through the builders in the order of a hash
  map, the model in the order they were made.
\<close>

definition finish :: "edge_association \<Rightarrow> edge_association" where
  "finish st = st\<lparr>updated := updated st @ m_tiles st, m_tiles := []\<rparr>"

section \<open>The program\<close>

text \<open>
  The command line as \<open>boost::program_options\<close> hands it over: which options were given
  (\<open>vm.count\<close> is not zero) and the two values.
\<close>

record variables_map =
  count_help :: bool
  count_version :: bool
  count_osmlr_tile_dir :: bool
  count_config :: bool
  tile_dir :: string
  config :: string

record dir_entry =
  is_regular_file :: bool
  extension :: string
  path_string :: string

datatype exit_status = EXIT_SUCCESS | EXIT_FAILURE

definition new_edge_association :: edge_association where
  "new_edge_association =
     \<lparr>m_tiles = [], m_partial_chunks = [], added = [], updated = [], warnings = []\<rparr>"

text \<open>The loop of \<open>main\<close> over the directory tree.\<close>

fun add_tiles :: "env \<Rightarrow> dir_entry list \<Rightarrow> edge_association \<Rightarrow> failure + edge_association" where
  "add_tiles E [] e = Inr e"
| "add_tiles E (entry # rest) e =
     (if is_regular_file entry \<and> extension entry = ''.osmlr''
      then (case add_tile E (path_string entry) e of
              Inl f \<Rightarrow> Inl f
            | Inr e \<Rightarrow> add_tiles E rest e)
      else add_tiles E rest e)"

text \<open>
  \<open>main\<close>. \<open>parsed\<close> is \<open>None\<close> when parsing the command line throws (the exception is
  caught). \<open>read_config\<close> says whether the configuration of the given name can be read
  and the graph reader set up; \<open>recursive_directory\<close> lists the directory tree of the
  given name. An exception after the command line has been parsed is caught by nobody.
\<close>

definition main ::
  "env \<Rightarrow> variables_map option \<Rightarrow> (string \<Rightarrow> bool) \<Rightarrow> (string \<Rightarrow> dir_entry list)
     \<Rightarrow> failure + exit_status" where
  "main E parsed read_config recursive_directory =
     (case parsed of
        None \<Rightarrow> Inr EXIT_FAILURE
      | Some vm \<Rightarrow>
          if count_help vm \<or> \<not> count_config vm then Inr EXIT_SUCCESS
          else if count_version vm then Inr EXIT_SUCCESS
          else if \<not> count_osmlr_tile_dir vm then Inr EXIT_FAILURE
          else if \<not> read_config (config vm) then Inl RuntimeError
          else
            (case add_tiles E (recursive_directory (tile_dir vm)) new_edge_association of
               Inl f \<Rightarrow> Inl f
             | Inr e \<Rightarrow> (let e = finish e in Inr EXIT_SUCCESS)))"

section \<open>A small graph to run the program on\<close>

text \<open>
  Three nodes \<open>A\<close>, \<open>B\<close>, \<open>C\<close> (graph ids 10, 11, 12) on a street corner: \<open>B\<close> is 30 m
  east of \<open>A\<close>, \<open>C\<close> is 10 m north of \<open>B\<close>. The edges are 1 (\<open>A\<close> to \<open>B\<close>), 20 (\<open>B\<close> to \<open>A\<close>),
  21 (\<open>B\<close> to \<open>C\<close>) and 30 (\<open>C\<close> to \<open>B\<close>). Distances are measured along the axes, ten
  million metres to the degree, which keeps every number rational.
\<close>

definition ex_A :: pointll where "ex_A = (Fin 0, Fin 0)"
definition ex_B :: pointll where "ex_B = (Fin (30 / 10000000), Fin 0)"
definition ex_C :: pointll where "ex_C = (Fin (30 / 10000000), Fin (10 / 10000000))"

text \<open>\<open>M\<close> is the point half way from \<open>A\<close> to \<open>B\<close>.\<close>

definition ex_M :: pointll where "ex_M = (Fin (15 / 10000000), Fin 0)"

fun ex_metres :: "pointll \<Rightarrow> pointll \<Rightarrow> real" where
  "ex_metres (Fin x1, Fin y1) (Fin x2, Fin y2) = 10000000 * (\<bar>x1 - x2\<bar> + \<bar>y1 - y2\<bar>)"
| "ex_metres _ _ = 0"

definition ex_road :: "32 word \<Rightarrow> graphid \<Rightarrow> 32 word \<Rightarrow> DirectedEdge" where
  "ex_road len to opp =
     \<lparr>use = kOtherUse, trans_up = False, trans_down = False, is_shortcut = False,
      forwardaccess = 1, reverseaccess = 1, link = False, roundabout = False,
      classification = 3, edge_length = len, forward = True, endnode = to, opp_index = opp\<rparr>"

definition ex_loc_A :: PathLocation where
  "ex_loc_A = \<lparr>pl_edges = [\<lparr>pe_id = 1, pe_dist = 0, projected = ex_A\<rparr>], pl_latlng = ex_A\<rparr>"

definition ex_loc_B :: PathLocation where
  "ex_loc_B =
     \<lparr>pl_edges = [\<lparr>pe_id = 21, pe_dist = 0, projected = ex_B\<rparr>,
                  \<lparr>pe_id = 1, pe_dist = 1, projected = ex_B\<rparr>],
      pl_latlng = ex_B\<rparr>"

definition ex_loc_C :: PathLocation where
  "ex_loc_C = \<lparr>pl_edges = [\<lparr>pe_id = 21, pe_dist = 1, projected = ex_C\<rparr>], pl_latlng = ex_C\<rparr>"

definition ex_loc_M :: PathLocation where
  "ex_loc_M = \<lparr>pl_edges = [\<lparr>pe_id = 1, pe_dist = 1 / 2, projected = ex_M\<rparr>], pl_latlng = ex_M\<rparr>"

definition ex_lrp :: "32 word \<Rightarrow> 32 word \<Rightarrow> LocationReference" where
  "ex_lrp x y = \<lparr>lng = x, lat = y, bear = 90, start_frc = 3, start_fow = 3, lrp_length = 30\<rparr>"

text \<open>
  Five segments: from \<open>A\<close> to \<open>B\<close>, from \<open>A\<close> over \<open>B\<close> to \<open>C\<close>, from \<open>A\<close> to a point
  with no edge near it, from \<open>A\<close> over \<open>B\<close> to that point, and from \<open>M\<close> to \<open>B\<close>.
\<close>

definition ex_seg_AB :: Segment where
  "ex_seg_AB = \<lparr>lrps = [ex_lrp 0 0, ex_lrp 30 0]\<rparr>"

definition ex_seg_ABC :: Segment where
  "ex_seg_ABC = \<lparr>lrps = [ex_lrp 0 0, ex_lrp 30 0, ex_lrp 30 10]\<rparr>"

definition ex_seg_lost :: Segment where
  "ex_seg_lost = \<lparr>lrps = [ex_lrp 0 0, ex_lrp 5000 5000]\<rparr>"

definition ex_seg_AB_lost :: Segment where
  "ex_seg_AB_lost = \<lparr>lrps = [ex_lrp 0 0, ex_lrp 30 0, ex_lrp 5000 5000]\<rparr>"

definition ex_seg_MB :: Segment where
  "ex_seg_MB = \<lparr>lrps = [ex_lrp 15 0, ex_lrp 30 0]\<rparr>"

definition ex_env :: env where
  "ex_env =
     \<lparr>kAllAccess = 4095, kAutoAccess = 1, kTruckAccess = 8, kTaxiAccess = 32,
      kBusAccess = 64, kHOVAccess = 128,
      RoadClass_kMotorway = 0, RoadClass_kTertiary = 4,
      Distance = ex_metres,
      DistanceSquared = (\<lambda>a b. ex_metres a b * ex_metres a b),
      HeadingAlongPolyline = (\<lambda>shape n. Fin 90),
      directededge = (\<lambda>g. if g = 1 then ex_road 30 11 0
                           else if g = 20 then ex_road 30 10 0
                           else if g = 21 then ex_road 10 12 0
                           else ex_road 10 11 1),
      edgeinfo_shape = (\<lambda>g. if g = 1 then [ex_A, ex_B]
                             else if g = 20 then [ex_B, ex_A]
                             else if g = 21 then [ex_B, ex_C]
                             else [ex_C, ex_B]),
      node = (\<lambda>n. if n = 10 then \<lparr>latlng = ex_A, edge_index = 1\<rparr>
                    else if n = 11 then \<lparr>latlng = ex_B, edge_index = 20\<rparr>
                    else \<lparr>latlng = ex_C, edge_index = 30\<rparr>),
      Tile_Base = (\<lambda>g. 0),
      GraphId_plus = (\<lambda>g n. g + n),
      Search = (\<lambda>p. if p = ex_A then [ex_loc_A]
                     else if p = ex_M then [ex_loc_M]
                     else if p = ex_B then [ex_loc_B]
                     else if p = ex_C then [ex_loc_C]
                     else []),
      GetBestPath = (\<lambda>a b. if pl_latlng a = ex_A \<and> pl_latlng b = ex_B
                               then [\<lparr>edgeid = 1, elapsed_time = 30\<rparr>]
                             else if pl_latlng a = ex_M \<and> pl_latlng b = ex_B
                               then [\<lparr>edgeid = 1, elapsed_time = 15\<rparr>]
                             else if pl_latlng a = ex_B \<and> pl_latlng b = ex_C
                               then [\<lparr>edgeid = 21, elapsed_time = 10\<rparr>]
                             else []),
      GetTileId = (\<lambda>name. 0),
      ParseFromIstream = (\<lambda>name. if name = ''tiles/0.osmlr''
                                  then Some [Marker, SegmentEntry ex_seg_AB,
                                             SegmentEntry ex_seg_lost, SegmentEntry ex_seg_ABC,
                                             SegmentEntry ex_seg_MB]
                                  else None)\<rparr>"

definition ex_env_flat :: env where
  "ex_env_flat = ex_env\<lparr>directededge := (\<lambda>g. (directededge ex_env g)\<lparr>edge_length := 0\<rparr>)\<rparr>"

definition ex_env_nnw :: env where
  "ex_env_nnw = ex_env\<lparr>HeadingAlongPolyline := (\<lambda>shape n. Fin (3597 / 10))\<rparr>"

text \<open>
  \<open>ex_env_flat\<close> is the same graph with every edge stored as 0 m long. \<open>ex_env_nnw\<close> is the same
  graph with streets that run a little west of north: the heading along them is 359.7
  degrees.
\<close>

text \<open>A point 20 m north and a tenth of a metre west of \<open>A\<close>.\<close>

definition ex_NNW :: pointll where "ex_NNW = (Fin (- 1 / 100000000), Fin (20 / 10000000))"

definition ex_read_config :: "string \<Rightarrow> bool" where
  "ex_read_config name = (name = ''valhalla.json'')"

definition ex_directory :: "string \<Rightarrow> dir_entry list" where
  "ex_directory name =
     (if name = ''tiles''
      then [\<lparr>is_regular_file = False, extension = [], path_string = ''tiles/sub''\<rparr>,
            \<lparr>is_regular_file = True, extension = ''.osmlr'', path_string = ''tiles/0.osmlr''\<rparr>,
            \<lparr>is_regular_file = True, extension = ''.txt'', path_string = ''tiles/notes.txt''\<rparr>]
      else [])"

definition ex_vm :: "bool \<Rightarrow> bool \<Rightarrow> bool \<Rightarrow> bool \<Rightarrow> variables_map" where
  "ex_vm h v t c =
     \<lparr>count_help = h, count_version = v, count_osmlr_tile_dir = t, count_config = c,
      tile_dir = (if t then ''tiles'' else []), config = (if c then ''valhalla.json'' else [])\<rparr>"

section \<open>Notions the properties are stated with\<close>

text \<open>The length of an edge in metres, and the length of a polyline: the sum of the
  distances between neighbours.\<close>

definition edge_metres :: "env \<Rightarrow> graphid \<Rightarrow> real" where
  "edge_metres E edge_id = real (unat (edge_length (directededge E edge_id)))"

fun polyline_length :: "(pointll \<Rightarrow> pointll \<Rightarrow> real) \<Rightarrow> pointll list \<Rightarrow> real" where
  "polyline_length D (a # b # rest) = D a b + polyline_length D (b # rest)"
| "polyline_length D _ = 0"

text \<open>A point with two finite coordinates.\<close>

fun finite_point :: "pointll \<Rightarrow> bool" where
  "finite_point (Fin x, Fin y) = True"
| "finite_point _ = False"

text \<open>The shape of an edge in its direction of travel, as \<open>bearing\<close> takes it up.\<close>

definition edge_shape :: "env \<Rightarrow> graphid \<Rightarrow> pointll list" where
  "edge_shape E edge_id =
     (if forward (directededge E edge_id) then edgeinfo_shape E edge_id
      else rev (edgeinfo_shape E edge_id))"

text \<open>
  The association records handed to the builders between two states, in the order they
  were handed over: the edge, the record, its weight.
\<close>

definition emitted ::
  "edge_association \<Rightarrow> edge_association \<Rightarrow> (graphid \<times> TrafficAssociation \<times> fl) list" where
  "emitted st st' =
     concat (map (\<lambda>(tile_id, edge_id, assoc). map (\<lambda>(ta, weight). (edge_id, ta, weight)) assoc)
       (drop (length (added st)) (added st')))"

text \<open>Every record begins where the record before it ends.\<close>

fun chained :: "TrafficAssociation list \<Rightarrow> bool" where
  "chained (a # b # rest) = (begin_percent b = end_percent a \<and> chained (b # rest))"
| "chained _ = True"

text \<open>A record covers the share \<open>r\<close> of the segment: its ends are numbers, in order, \<open>r\<close> apart.\<close>

definition covers :: "TrafficAssociation \<Rightarrow> real \<Rightarrow> bool" where
  "covers ta r =
     (case (begin_percent ta, end_percent ta) of
        (Fin b, Fin e) \<Rightarrow> b \<le> e \<and> e - b = r
      | _ \<Rightarrow> False)"

text \<open>
  The end of the record of edge \<open>j\<close> as the second loop of \<open>assign_one_to_many\<close> computes it.
\<close>

definition boundary :: "graphid list \<Rightarrow> real list \<Rightarrow> real \<Rightarrow> nat \<Rightarrow> fl" where
  "boundary edges lengths total_length j =
     (if j = length edges - 1 then Fin 1 else fdiv (lengths ! j) total_length)"

text \<open>The summed length of the first \<open>j\<close> edges.\<close>

definition cum :: "env \<Rightarrow> graphid list \<Rightarrow> nat \<Rightarrow> real" where
  "cum E edges j = sum_list (map (edge_metres E) (take j edges))"

text \<open>
  A step of matching fails, in the words of the claim, for the pair of a reference point
  and its successor, with the candidate \<open>origin\<close> found at the former: no candidate at the
  destination, no path, a path that ends more than 10 m from the destination, a first
  path edge that is not accessible, or a first path edge that is none of the origin's
  candidates. The matching of a segment fails when there is no candidate at its first
  point or when some step fails; the origin of each step is the first candidate found at
  its reference point.
\<close>

definition pair_fails :: "env \<Rightarrow> PathLocation \<Rightarrow> LocationReference \<Rightarrow> LocationReference \<Rightarrow> bool" where
  "pair_fails E origin lrp next_lrp =
     (let dests = Search E (coord_for_lrp next_lrp) in
      dests = [] \<or>
      (let path = GetBestPath E origin (hd dests) in
       path = [] \<or>
       Distance E (latlng (node E (endnode (directededge E (edgeid (last path))))))
         (coord_for_lrp next_lrp) > 10 \<or>
       \<not> check_access E (directededge E (edgeid (hd path))) \<or>
       edgeid (hd path) \<notin> set (map pe_id (pl_edges origin))))"

definition segment_fails :: "env \<Rightarrow> Segment \<Rightarrow> bool" where
  "segment_fails E segment =
     (Search E (coord_for_lrp (lrps segment ! 0)) = [] \<or>
      list_ex (\<lambda>i. pair_fails E (hd (Search E (coord_for_lrp (lrps segment ! i))))
                  (lrps segment ! i) (lrps segment ! Suc i))
        [0..<length (lrps segment) - 1])"

section \<open>Properties\<close>

subsection \<open>Form of way\<close>

lemma and_or_eq_0:
  "(x AND (a OR b)) = 0 \<longleftrightarrow> x AND a = 0 \<and> x AND b = 0" for x :: "'a::len word"
  by (simp add: bit.conj_disj_distrib or_eq_0_iff)

text \<open>
  C6. An edge is one-way when none of the five vehicular modes (auto, truck, taxi, bus,
  HOV) is allowed against its direction, and \<open>form_of_way\<close> decides in this order: the
  link flag gives slip road; else the roundabout flag gives roundabout; else a one-way
  motorway gives motorway; else a one-way road of class tertiary or better gives multiple
  carriageway; else a road of class tertiary or better gives single carriageway; else
  other. The better class has the smaller number. The forms undefined and traffic square
  are never returned.
\<close>

theorem form_of_way_order:
  "is_oneway E e =
     (\<forall>m \<in> {kAutoAccess E, kTruckAccess E, kTaxiAccess E, kBusAccess E, kHOVAccess E}.
        reverseaccess e AND m = 0)
   \<and> form_of_way E e =
     (if link e then kSlipRoad
      else if roundabout e then kRoundabout
      else if classification e = RoadClass_kMotorway E \<and> is_oneway E e then kMotorway
      else if classification e \<le> RoadClass_kTertiary E \<and> is_oneway E e then kMultipleCarriageway
      else if classification e \<le> RoadClass_kTertiary E then kSingleCarriageway
      else kOther)
   \<and> form_of_way E e \<noteq> kUndefined \<and> form_of_way E e \<noteq> kTrafficSquare"
  by (simp add: is_oneway_def form_of_way_def vehicular_def and_or_eq_0 Let_def)

text \<open>
  A motorway edge that only pedestrians may use against its direction is one-way, and its
  form of way is motorway.
\<close>

theorem form_of_way_order_witness:
  "is_oneway ex_env (ex_road 30 11 0\<lparr>reverseaccess := 2, classification := 0\<rparr>)
   \<and> form_of_way ex_env (ex_road 30 11 0\<lparr>reverseaccess := 2, classification := 0\<rparr>) = kMotorway"
  using form_of_way_order [of ex_env "ex_road 30 11 0\<lparr>reverseaccess := 2, classification := 0\<rparr>"]
  by (simp add: ex_env_def ex_road_def)

subsection \<open>Removing repeated edges\<close>

lemma nths_run_starts_Cons:
  "nths (y # xs) {i. i = 0 \<or> (y # xs) ! i \<noteq> (y # xs) ! (i - 1)}
     = y # nths xs {j. xs ! j \<noteq> (y # xs) ! j}"
  by (simp add: nths_Cons)

text \<open>
  C9. \<open>unique\<close> keeps, in their order, exactly the entries at position 0 and at every
  position whose left neighbour is a different edge. So only an edge equal to its left
  neighbour is dropped, and an edge that comes back later, with other edges in between,
  stays at each of those positions.
\<close>

theorem unique_adjacent_only:
  "unique xs = nths xs {i. i = 0 \<or> xs ! i \<noteq> xs ! (i - 1)}"
proof (induction xs rule: unique.induct)
  case 1
  then show ?case by simp
next
  case (2 x)
  then show ?case by (simp add: nths_Cons)
next
  case (3 x y xs)
  have "unique (y # xs) = nths (y # xs) {i. i = 0 \<or> (y # xs) ! i \<noteq> (y # xs) ! (i - 1)}"
    using 3 by (cases "x = y") blast+
  then have ih: "unique (y # xs) = y # nths xs {j. xs ! j \<noteq> (y # xs) ! j}"
    by (simp only: nths_run_starts_Cons)
  have "nths (x # y # xs) {i. i = 0 \<or> (x # y # xs) ! i \<noteq> (x # y # xs) ! (i - 1)}
      = x # nths (y # xs) {j. (y # xs) ! j \<noteq> (x # y # xs) ! j}"
    by (rule nths_run_starts_Cons)
  also have "nths (y # xs) {j. (y # xs) ! j \<noteq> (x # y # xs) ! j}
      = (if x = y then [] else [y]) @ nths xs {j. xs ! j \<noteq> (y # xs) ! j}"
    by (simp add: nths_Cons)
  finally show ?case
    using ih by simp
qed

text \<open>A path that runs over edge 1, twice over edge 2 and back over edge 1.\<close>

theorem unique_adjacent_only_witness:
  "nths [1, 2, 2, 1, 3 :: graphid] {i. i = 0 \<or> [1, 2, 2, 1, 3 :: graphid] ! i \<noteq> [1, 2, 2, 1, 3] ! (i - 1)}
     = [1, 2, 1, 3]"
  using unique_adjacent_only [of "[1, 2, 2, 1, 3 :: graphid]"]
  by simp

subsection \<open>Association records of a match\<close>

declare assign_loop.simps [simp del]

lemma sum_lengths_eq:
  "sum_lengths E es t ls =
     (t + sum_list (map (edge_metres E) es),
      ls @ map (\<lambda>k. t + sum_list (map (edge_metres E) (take (Suc k) es))) [0..<length es])"
proof (induction es arbitrary: t ls)
  case Nil
  then show ?case by simp
next
  case (Cons e es)
  have "[0..<length (e # es)] = 0 # map Suc [0..<length es]"
    by (simp add: upt_conv_Cons map_Suc_upt del: upt_Suc)
  then show ?case
    by (simp add: Cons.IH edge_metres_def Let_def add.assoc comp_def del: upt_Suc)
qed

lemma assign_loop_added:
  "added (assign_loop E edges sid lengths tot i b [] st) =
     added st @ map (\<lambda>j. (Tile_Base E (edges ! j), edges ! j,
        [(\<lparr>ta_segment_id = sid,
            begin_percent = (if j = i then b else boundary edges lengths tot (j - 1)),
            end_percent = boundary edges lengths tot j\<rparr>, Fin 1)])) [i..<length edges]"
proof (induction "length edges - i" arbitrary: i b st)
  case 0
  then show ?case by (simp add: assign_loop.simps)
next
  case (Suc n)
  then have lt: "i < length edges" and n: "n = length edges - Suc i" by linarith+
  have tl: "map (\<lambda>j. (Tile_Base E (edges ! j), edges ! j,
        [(\<lparr>ta_segment_id = sid,
            begin_percent = (if j = Suc i then boundary edges lengths tot i else boundary edges lengths tot (j - 1)),
            end_percent = boundary edges lengths tot j\<rparr>, Fin 1)])) [Suc i..<length edges]
     = map (\<lambda>j. (Tile_Base E (edges ! j), edges ! j,
        [(\<lparr>ta_segment_id = sid,
            begin_percent = (if j = i then b else boundary edges lengths tot (j - 1)),
            end_percent = boundary edges lengths tot j\<rparr>, Fin 1)])) [Suc i..<length edges]"
    by (rule map_cong) auto
  show ?case
    apply (subst assign_loop.simps)
    apply (simp add: lt Let_def Suc.hyps(1)[OF n] upt_conv_Cons[OF lt] del: upt_Suc)
    apply (simp add: AddTrafficSegmentAssociation_def builder_for_edge_def Let_def boundary_def tl[unfolded boundary_def])
    done
qed

lemma assign_loop_chunks:
  "m_partial_chunks (assign_loop E edges sid lengths tot i b assoc st) = m_partial_chunks st"
proof (induction "length edges - i" arbitrary: i b st assoc)
  case 0
  then show ?case by (simp add: assign_loop.simps)
next
  case (Suc n)
  then have lt: "i < length edges" and n: "n = length edges - Suc i" by linarith+
  show ?case
    apply (subst assign_loop.simps)
    apply (simp add: lt Let_def Suc.hyps(1)[OF n])
    apply (simp add: AddTrafficSegmentAssociation_def builder_for_edge_def Let_def)
    done
qed

lemma emitted_append:
  "added st' = added st @ calls \<Longrightarrow>
   emitted st st' = concat (map (\<lambda>(tile_id, edge_id, assoc). map (\<lambda>(ta, weight). (edge_id, ta, weight)) assoc) calls)"
  by (simp add: emitted_def)

text \<open>The records of a one-to-many match, with the boundaries as the loop computes them.\<close>

lemma one_to_many_emitted_raw:
  "emitted st (assign_one_to_many E edges sid st) =
     map (\<lambda>j. (edges ! j,
        \<lparr>ta_segment_id = sid,
          begin_percent = (if j = 0 then Fin 0 else boundary edges (snd (sum_lengths E edges 0 [])) (fst (sum_lengths E edges 0 [])) (j - 1)),
          end_percent = boundary edges (snd (sum_lengths E edges 0 [])) (fst (sum_lengths E edges 0 [])) j\<rparr>, Fin 1)) [0..<length edges]"
  by (simp add: emitted_append[OF assign_loop_added] assign_one_to_many_def split_beta Let_def
       comp_def concat_map_singleton del: upt_Suc)

lemma boundary_cum:
  assumes "j < length edges" "0 < cum E edges (length edges)"
  shows "boundary edges (snd (sum_lengths E edges 0 [])) (fst (sum_lengths E edges 0 [])) j
     = Fin (cum E edges (Suc j) / cum E edges (length edges))"
proof (cases "j = length edges - 1")
  case True
  then have "Suc j = length edges" using assms(1) by simp
  then show ?thesis using assms(2) True by (simp add: boundary_def)
next
  case False
  then show ?thesis using assms
    by (simp add: boundary_def sum_lengths_eq fdiv_def cum_def del: upt_Suc)
qed

lemma one_to_many_emitted:
  assumes "0 < cum E edges (length edges)"
  shows "emitted st (assign_one_to_many E edges sid st) =
     map (\<lambda>j. (edges ! j,
        \<lparr>ta_segment_id = sid,
          begin_percent = Fin (cum E edges j / cum E edges (length edges)),
          end_percent = Fin (cum E edges (Suc j) / cum E edges (length edges))\<rparr>, Fin 1)) [0..<length edges]"
  unfolding one_to_many_emitted_raw
proof (rule map_cong[OF refl])
  fix j assume "j \<in> set [0..<length edges]"
  then have j: "j < length edges" by simp
  have b: "(if j = 0 then Fin 0 else boundary edges (snd (sum_lengths E edges 0 [])) (fst (sum_lengths E edges 0 [])) (j - 1))
     = Fin (cum E edges j / cum E edges (length edges))"
  proof (cases j)
    case 0
    then show ?thesis by (simp add: cum_def)
  next
    case (Suc k)
    then have "k < length edges" using j by simp
    from boundary_cum[OF this assms] Suc show ?thesis by simp
  qed
  show "(edges ! j, \<lparr>ta_segment_id = sid,
          begin_percent = (if j = 0 then Fin 0 else boundary edges (snd (sum_lengths E edges 0 [])) (fst (sum_lengths E edges 0 [])) (j - 1)),
          end_percent = boundary edges (snd (sum_lengths E edges 0 [])) (fst (sum_lengths E edges 0 [])) j\<rparr>, Fin 1)
     = (edges ! j, \<lparr>ta_segment_id = sid,
          begin_percent = Fin (cum E edges j / cum E edges (length edges)),
          end_percent = Fin (cum E edges (Suc j) / cum E edges (length edges))\<rparr>, Fin 1)"
    by (simp only: b boundary_cum[OF j assms])
qed


lemma chained_nth:
  "chained tas \<longleftrightarrow>
     (\<forall>i. Suc i < length tas \<longrightarrow> begin_percent (tas ! Suc i) = end_percent (tas ! i))"
proof (induction tas rule: chained.induct)
  case (1 a b rest)
  have "(\<forall>i. Suc i < length (a # b # rest) \<longrightarrow>
            begin_percent ((a # b # rest) ! Suc i) = end_percent ((a # b # rest) ! i))
      \<longleftrightarrow> begin_percent b = end_percent a \<and>
          (\<forall>i. Suc i < length (b # rest) \<longrightarrow>
            begin_percent ((b # rest) ! Suc i) = end_percent ((b # rest) ! i))"
    (is "?L \<longleftrightarrow> ?R")
  proof
    assume l: ?L
    have "begin_percent b = end_percent a" using l[rule_format, of 0] by simp
    moreover have "\<forall>i. Suc i < length (b # rest) \<longrightarrow>
            begin_percent ((b # rest) ! Suc i) = end_percent ((b # rest) ! i)"
    proof (intro allI impI)
      fix i assume "Suc i < length (b # rest)"
      then show "begin_percent ((b # rest) ! Suc i) = end_percent ((b # rest) ! i)"
        using l[rule_format, of "Suc i"] by simp
    qed
    ultimately show ?R by simp
  next
    assume r: ?R
    show ?L
    proof (intro allI impI)
      fix i assume i: "Suc i < length (a # b # rest)"
      show "begin_percent ((a # b # rest) ! Suc i) = end_percent ((a # b # rest) ! i)"
      proof (cases i)
        case 0
        then show ?thesis using r by simp
      next
        case (Suc k)
        then show ?thesis using r i by simp
      qed
    qed
  qed
  then show ?case using 1 by simp
qed simp_all

text \<open>
  C1, amended. When two or more edges are matched and their summed length is not zero,
  \<open>assign_one_to_many\<close> hands over one record for each edge, in the order of the edges;
  the first record begins at 0, the last ends at 1, every record begins where the one
  before it ends, and every record runs from a number to a number that is not smaller
  and covers the share of its edge in the summed length.
\<close>

theorem one_to_many_partition:
  assumes k: "2 \<le> length edges"
      and pos: "0 < sum_list (map (edge_metres E) edges)"
  shows "map fst (emitted st (assign_one_to_many E edges sid st)) = edges
     \<and> begin_percent (fst (snd (hd (emitted st (assign_one_to_many E edges sid st))))) = Fin 0
     \<and> end_percent (fst (snd (last (emitted st (assign_one_to_many E edges sid st))))) = Fin 1
     \<and> chained (map (\<lambda>r. fst (snd r)) (emitted st (assign_one_to_many E edges sid st)))
     \<and> list_all2 covers (map (\<lambda>r. fst (snd r)) (emitted st (assign_one_to_many E edges sid st)))
          (map (\<lambda>e. edge_metres E e / sum_list (map (edge_metres E) edges)) edges)"
proof -
  define T where "T = cum E edges (length edges)"
  have T: "T = sum_list (map (edge_metres E) edges)" by (simp add: T_def cum_def)
  have Tpos: "0 < T" using pos T by simp
  define rec where "rec = (\<lambda>j. (edges ! j,
        \<lparr>ta_segment_id = sid, begin_percent = Fin (cum E edges j / T),
          end_percent = Fin (cum E edges (Suc j) / T)\<rparr>, Fin 1))"
  have em: "emitted st (assign_one_to_many E edges sid st) = map rec [0..<length edges]"
    using one_to_many_emitted[of E edges st sid] Tpos by (simp add: rec_def T_def)
  have ne: "[0..<length edges] \<noteq> []" using k by auto
  have step: "cum E edges (Suc j) = cum E edges j + edge_metres E (edges ! j)"
    if "j < length edges" for j
    using that by (simp add: cum_def take_Suc_conv_app_nth)
  have c1: "map fst (map rec [0..<length edges]) = edges"
    by (simp add: rec_def comp_def map_nth del: upt_Suc)
  have c2: "begin_percent (fst (snd (hd (map rec [0..<length edges])))) = Fin 0"
    using ne by (simp add: hd_map rec_def cum_def del: upt_Suc)
  have c3: "end_percent (fst (snd (last (map rec [0..<length edges])))) = Fin 1"
  proof -
    have "last [0..<length edges] = length edges - 1"
      using k last_upt[of 0 "length edges"] by linarith
    moreover have "Suc (length edges - 1) = length edges" using k by simp
    ultimately show ?thesis
      using ne Tpos by (simp add: last_map rec_def T_def del: upt_Suc)
  qed
  have c4: "chained (map (\<lambda>r. fst (snd r)) (map rec [0..<length edges]))"
    by (simp add: chained_nth rec_def del: upt_Suc)
  have c5: "list_all2 covers (map (\<lambda>r. fst (snd r)) (map rec [0..<length edges]))
          (map (\<lambda>e. edge_metres E e / T) edges)"
  proof (rule list_all2_all_nthI)
    show "length (map (\<lambda>r. fst (snd r)) (map rec [0..<length edges]))
        = length (map (\<lambda>e. edge_metres E e / T) edges)" by simp
  next
    fix j assume "j < length (map (\<lambda>r. fst (snd r)) (map rec [0..<length edges]))"
    then have j: "j < length edges" by simp
    have "0 \<le> edge_metres E (edges ! j)" by (simp only: edge_metres_def of_nat_0_le_iff)
    then show "covers (map (\<lambda>r. fst (snd r)) (map rec [0..<length edges]) ! j)
        (map (\<lambda>e. edge_metres E e / T) edges ! j)"
      using j Tpos
      by (simp add: covers_def rec_def step[OF j] add_divide_distrib divide_right_mono del: upt_Suc)
  qed
  show ?thesis
    unfolding em using c1 c2 c3 c4 c5 by (simp only: T[symmetric] simp_thms)
qed

text \<open>Edges 1 and 21 of the small graph, 30 m and 10 m long: three quarters and one quarter.\<close>

theorem one_to_many_partition_witness:
  "2 \<le> length [1, 21 :: graphid] \<and> 0 < sum_list (map (edge_metres ex_env) [1, 21])
   \<and> map fst (emitted new_edge_association (assign_one_to_many ex_env [1, 21] 7 new_edge_association)) = [1, 21]
   \<and> list_all2 covers
        (map (\<lambda>r. fst (snd r)) (emitted new_edge_association (assign_one_to_many ex_env [1, 21] 7 new_edge_association)))
        [3 / 4, 1 / 4]"
  using one_to_many_partition [of "[1, 21]" ex_env new_edge_association 7]
  by (simp add: edge_metres_def ex_env_def ex_road_def)

text \<open>
  C1 as stated fails where every matched edge is 0 m long: the quotient \<open>0.0f / 0.0f\<close>
  is not a number, so the first record does not end at a number and the second does not
  begin at one. Here for the segment from \<open>A\<close> over \<open>B\<close> to \<open>C\<close>, which is matched to
  edges 1 and 21 with both ends within tolerance.
\<close>

theorem one_to_many_zero_length:
  "match_edges ex_env_flat ex_seg_ABC = Inr ([], [1, 21])
   \<and> approx_equal ex_env_flat (coord_for_lrp (lrps ex_seg_ABC ! 0)) (lookup_start_coord ex_env_flat 1)
   \<and> approx_equal ex_env_flat (coord_for_lrp (lrps ex_seg_ABC ! 2)) (lookup_end_coord ex_env_flat 21)
   \<and> emitted new_edge_association (assign_one_to_many ex_env_flat [1, 21] 7 new_edge_association)
     = [(1, \<lparr>ta_segment_id = 7, begin_percent = Fin 0, end_percent = NonFin\<rparr>, Fin 1),
        (21, \<lparr>ta_segment_id = 7, begin_percent = NonFin, end_percent = Fin 1\<rparr>, Fin 1)]
   \<and> match_segment ex_env_flat 7 ex_seg_ABC new_edge_association
     = Inr (assign_one_to_many ex_env_flat [1, 21] 7 new_edge_association)"
  by code_simp

text \<open>
  C8. Every record is handed over with weight 1, in the one-to-many case and in the
  one-to-one case. In the one-to-many case the builders are called once for each edge of
  the list, in order, and each call carries a vector of exactly one record; in the
  one-to-one case there is one call with one record, from 0 to 1.
\<close>

theorem weight_one_per_edge:
  "map (\<lambda>(edge_id, ta, weight). (edge_id, weight)) (emitted st (assign_one_to_many E edges sid st))
      = map (\<lambda>edge_id. (edge_id, Fin 1)) edges
   \<and> map (\<lambda>(tile_id, edge_id, assoc). (edge_id, length assoc))
        (drop (length (added st)) (added (assign_one_to_many E edges sid st)))
      = map (\<lambda>edge_id. (edge_id, 1)) edges
   \<and> drop (length (added st)) (added (assign_one_to_one E edge_id sid st))
      = [(Tile_Base E edge_id, edge_id,
          [(\<lparr>ta_segment_id = sid, begin_percent = Fin 0, end_percent = Fin 1\<rparr>, Fin 1)])]"
proof -
  have a: "map (\<lambda>(edge_id, ta, weight). (edge_id, weight)) (emitted st (assign_one_to_many E edges sid st))
      = map (\<lambda>edge_id. (edge_id, Fin 1)) edges"
    by (simp add: one_to_many_emitted_raw comp_def map_nth map_equality_iff del: upt_Suc)
  have b: "map (\<lambda>(tile_id, edge_id, assoc). (edge_id, length assoc))
        (drop (length (added st)) (added (assign_one_to_many E edges sid st)))
      = map (\<lambda>edge_id. (edge_id, 1)) edges"
    by (simp add: assign_one_to_many_def split_beta assign_loop_added comp_def map_equality_iff del: upt_Suc)
  have c: "drop (length (added st)) (added (assign_one_to_one E edge_id sid st))
      = [(Tile_Base E edge_id, edge_id,
          [(\<lparr>ta_segment_id = sid, begin_percent = Fin 0, end_percent = Fin 1\<rparr>, Fin 1)])]"
    by (simp add: assign_one_to_one_def AddTrafficSegmentAssociation_def builder_for_edge_def Let_def)
  show ?thesis using a b c by simp
qed

text \<open>A match that runs over edge 1, edge 21 and edge 1 again.\<close>

theorem weight_one_per_edge_witness:
  "map (\<lambda>(edge_id, ta, weight). (edge_id, weight))
     (emitted new_edge_association (assign_one_to_many ex_env [1, 21, 1] 7 new_edge_association))
     = [(1, Fin 1), (21, Fin 1), (1, Fin 1)]"
  using weight_one_per_edge [of new_edge_association ex_env "[1, 21, 1]" 7]
  by simp

subsection \<open>The outcome of a matched segment\<close>

lemma emitted_warnings [simp]:
  "emitted (st\<lparr>warnings := w\<rparr>) st' = emitted st st'"
  by (simp add: emitted_def)

lemma emitted_save_chunk [simp]:
  "emitted st (save_chunk_for_later edges sid st) = []"
  by (simp add: emitted_def save_chunk_for_later_def)

lemma emitted_one_to_one:
  "emitted st (assign_one_to_one E edge_id sid st)
     = [(edge_id, \<lparr>ta_segment_id = sid, begin_percent = Fin 0, end_percent = Fin 1\<rparr>, Fin 1)]"
  by (simp add: emitted_def assign_one_to_one_def AddTrafficSegmentAssociation_def
        builder_for_edge_def Let_def)

lemma chunks_one_to_one [simp]:
  "m_partial_chunks (assign_one_to_one E edge_id sid st) = m_partial_chunks st"
  by (simp add: assign_one_to_one_def AddTrafficSegmentAssociation_def builder_for_edge_def Let_def)

lemma chunks_one_to_many [simp]:
  "m_partial_chunks (assign_one_to_many E edges sid st) = m_partial_chunks st"
  by (simp add: assign_one_to_many_def split_beta assign_loop_chunks)

lemma emitted_one_to_many_edges:
  "map fst (emitted st (assign_one_to_many E edges sid st)) = edges"
  by (simp add: one_to_many_emitted_raw comp_def map_nth del: upt_Suc)

text \<open>
  C3. For a segment that \<open>match_edges\<close> matches to a sequence of edges that is not empty,
  \<open>match_segment\<close> returns, and: when both ends of the sequence are within tolerance
  (squared distance at most 100) of the first and the last reference point, no chunk is
  stored, and a sequence of one edge gives exactly one record, for that edge, from 0 to 1,
  while a longer sequence gives one record for each of its edges; when an end is outside
  tolerance, no record is handed over and the sequence is stored as one chunk with the
  segment's id. So either records are handed over or a chunk is stored, never both and
  never neither.
\<close>

theorem match_segment_outcomes:
  assumes m: "match_edges E seg = Inr (logged, edges)"
      and ne: "edges \<noteq> []"
  shows "\<exists>st'. match_segment E sid seg st = Inr st' \<and>
     (if approx_equal E (coord_for_lrp (lrps seg ! 0)) (lookup_start_coord E (hd edges)) \<and>
         approx_equal E (coord_for_lrp (lrps seg ! (length (lrps seg) - 1)))
           (lookup_end_coord E (last edges))
      then m_partial_chunks st' = m_partial_chunks st \<and>
           (if length edges = 1
            then emitted st st' =
                   [(hd edges, \<lparr>ta_segment_id = sid, begin_percent = Fin 0, end_percent = Fin 1\<rparr>, Fin 1)]
            else map fst (emitted st st') = edges)
      else emitted st st' = [] \<and>
           m_partial_chunks st' =
             m_partial_chunks st @ [\<lparr>chunk_edges = edges, chunk_segments = [sid]\<rparr>])
     \<and> (emitted st st' = []) \<noteq> (m_partial_chunks st' = m_partial_chunks st)"
proof -
  define st0 where "st0 = st\<lparr>warnings := warnings st @ logged\<rparr>"
  define W where "W \<longleftrightarrow>
     approx_equal E (coord_for_lrp (lrps seg ! 0)) (lookup_start_coord E (hd edges)) \<and>
     approx_equal E (coord_for_lrp (lrps seg ! (length (lrps seg) - 1)))
       (lookup_end_coord E (last edges))"
  have ms: "match_segment E sid seg st =
      Inr (if W then (if length edges = 1 then assign_one_to_one E (hd edges) sid st0
                      else assign_one_to_many E edges sid st0)
           else save_chunk_for_later edges sid st0)"
    using m ne by (simp add: match_segment_def Let_def W_def st0_def)
  have em: "emitted st st' = emitted st0 st'" and ch: "m_partial_chunks st0 = m_partial_chunks st"
    for st' by (simp_all add: st0_def)
  have many: "map fst (emitted st (assign_one_to_many E edges sid st0)) = edges"
    unfolding em by (rule emitted_one_to_many_edges)
  then have many_ne: "emitted st (assign_one_to_many E edges sid st0) \<noteq> []"
    using ne by auto
  have one: "emitted st (assign_one_to_one E (hd edges) sid st0) =
      [(hd edges, \<lparr>ta_segment_id = sid, begin_percent = Fin 0, end_percent = Fin 1\<rparr>, Fin 1)]"
    unfolding em by (rule emitted_one_to_one)
  have chunk: "emitted st (save_chunk_for_later edges sid st0) = []"
    unfolding em by (rule emitted_save_chunk)
  have chunk': "m_partial_chunks (save_chunk_for_later edges sid st0) =
      m_partial_chunks st @ [\<lparr>chunk_edges = edges, chunk_segments = [sid]\<rparr>]"
    by (simp add: save_chunk_for_later_def ch)
  show ?thesis
    unfolding ms W_def[symmetric]
    by (cases W; cases "length edges = 1") (simp_all add: one many many_ne chunk chunk' ch)
qed

text \<open>
  On the small graph the segment from \<open>A\<close> to \<open>B\<close> matches edge 1 from end to end; the
  segment from \<open>M\<close> to \<open>B\<close> matches edge 1 too, which starts 15 m before \<open>M\<close>; the segment
  from \<open>A\<close> over \<open>B\<close> to \<open>C\<close> matches edges 1 and 21.
\<close>

lemma ex_match_AB: "match_edges ex_env ex_seg_AB = Inr ([], [1])"
  by code_simp

lemma ex_match_MB: "match_edges ex_env ex_seg_MB = Inr ([], [1])"
  by code_simp

lemma ex_match_ABC: "match_edges ex_env ex_seg_ABC = Inr ([], [1, 21])"
  by code_simp

lemma ex_within_AB:
  "approx_equal ex_env (coord_for_lrp (lrps ex_seg_AB ! 0)) (lookup_start_coord ex_env (hd [1])) \<and>
   approx_equal ex_env (coord_for_lrp (lrps ex_seg_AB ! (length (lrps ex_seg_AB) - 1)))
     (lookup_end_coord ex_env (last [1]))"
  by code_simp

lemma ex_within_ABC:
  "approx_equal ex_env (coord_for_lrp (lrps ex_seg_ABC ! 0)) (lookup_start_coord ex_env (hd [1, 21])) \<and>
   approx_equal ex_env (coord_for_lrp (lrps ex_seg_ABC ! (length (lrps ex_seg_ABC) - 1)))
     (lookup_end_coord ex_env (last [1, 21]))"
  by code_simp

lemma ex_outside_MB:
  "\<not> approx_equal ex_env (coord_for_lrp (lrps ex_seg_MB ! 0)) (lookup_start_coord ex_env (hd [1]))"
  by code_simp

theorem match_segment_outcomes_witness:
  "(\<exists>st'. match_segment ex_env 7 ex_seg_AB new_edge_association = Inr st' \<and>
      m_partial_chunks st' = m_partial_chunks new_edge_association \<and>
      emitted new_edge_association st' =
        [(1, \<lparr>ta_segment_id = 7, begin_percent = Fin 0, end_percent = Fin 1\<rparr>, Fin 1)])
   \<and> (\<exists>st'. match_segment ex_env 8 ex_seg_MB new_edge_association = Inr st' \<and>
      emitted new_edge_association st' = [] \<and>
      m_partial_chunks st' =
        m_partial_chunks new_edge_association @ [\<lparr>chunk_edges = [1], chunk_segments = [8]\<rparr>])
   \<and> (\<exists>st'. match_segment ex_env 9 ex_seg_ABC new_edge_association = Inr st' \<and>
      map fst (emitted new_edge_association st') = [1, 21] \<and>
      m_partial_chunks st' = m_partial_chunks new_edge_association)"
proof -
  have ne: "[1 :: graphid] \<noteq> []" by simp
  have ne2: "[1, 21 :: graphid] \<noteq> []" by simp
  from match_segment_outcomes [OF ex_match_ABC ne2, of 9 new_edge_association] ex_within_ABC
  have c: "\<exists>st'. match_segment ex_env 9 ex_seg_ABC new_edge_association = Inr st' \<and>
      map fst (emitted new_edge_association st') = [1, 21] \<and>
      m_partial_chunks st' = m_partial_chunks new_edge_association"
    by auto
  from match_segment_outcomes [OF ex_match_AB ne, of 7 new_edge_association] ex_within_AB
  have a: "\<exists>st'. match_segment ex_env 7 ex_seg_AB new_edge_association = Inr st' \<and>
      m_partial_chunks st' = m_partial_chunks new_edge_association \<and>
      emitted new_edge_association st' =
        [(1, \<lparr>ta_segment_id = 7, begin_percent = Fin 0, end_percent = Fin 1\<rparr>, Fin 1)]"
    by auto
  from match_segment_outcomes [OF ex_match_MB ne, of 8 new_edge_association] ex_outside_MB
  have b: "\<exists>st'. match_segment ex_env 8 ex_seg_MB new_edge_association = Inr st' \<and>
      emitted new_edge_association st' = [] \<and>
      m_partial_chunks st' =
        m_partial_chunks new_edge_association @ [\<lparr>chunk_edges = [1], chunk_segments = [8]\<rparr>]"
    by auto
  from a b c show ?thesis by blast
qed


subsection \<open>Discarded segments\<close>

lemma pair_fails_discards:
  assumes "pair_fails E origin lrp next_lrp"
  shows "\<exists>w. match_pair E origin lrp next_lrp = Inr (Inl w)"
proof -
  have nf: "List.find (\<lambda>e. pe_id e = g) (pl_edges origin) = None"
    if "g \<notin> set (map pe_id (pl_edges origin))" for g
    using that by (auto simp: find_None_iff)
  show ?thesis
    using assms
    by (auto simp: pair_fails_def match_pair_def Let_def hd_conv_nth nf)
qed

lemma match_pair_found:
  assumes "match_pair E origin lrp next_lrp = Inr (Inr (found, dest))"
  shows "\<not> pair_fails E origin lrp next_lrp \<and> dest = hd (Search E (coord_for_lrp next_lrp)) \<and> found \<noteq> []"
proof -
  have fs: "g \<in> set (map pe_id (pl_edges origin))"
    if "List.find (\<lambda>e. pe_id e = g) (pl_edges origin) = Some e" for g e
    using that by (auto simp: find_Some_iff)
  show ?thesis
    using assms
    by (auto simp: pair_fails_def match_pair_def Let_def hd_conv_nth
          split: if_splits option.splits sum.splits dest: fs)
qed


lemma match_loop_fails:
  assumes "match_loop E ls origin acc = Inr r"
      and "origin = hd (Search E (coord_for_lrp (hd ls)))"
      and "list_ex (\<lambda>i. pair_fails E (hd (Search E (coord_for_lrp (ls ! i)))) (ls ! i) (ls ! Suc i))
             [0..<length ls - 1]"
  shows "\<exists>w. r = Inl w"
  using assms
proof (induction E ls origin acc rule: match_loop.induct)
  case (1 E lrp next_lrp rest origin edges)
  from "1.prems"(3) obtain i where mem: "i \<in> set [0..<length (lrp # next_lrp # rest) - 1]"
    and fails: "pair_fails E (hd (Search E (coord_for_lrp ((lrp # next_lrp # rest) ! i))))
                  ((lrp # next_lrp # rest) ! i) ((lrp # next_lrp # rest) ! Suc i)"
    unfolding list_ex_iff by blast
  from mem have i: "i < Suc (length rest)" by auto
  show ?case
  proof (cases "match_pair E origin lrp next_lrp")
    case (Inl f)
    then show ?thesis using "1.prems"(1) by simp
  next
    case (Inr res)
    show ?thesis
    proof (cases res)
      case (Inl w)
      then show ?thesis using Inr "1.prems"(1) by auto
    next
      case (Inr ok)
      obtain found dest where ok: "ok = (found, dest)" by (cases ok)
      have mp: "match_pair E origin lrp next_lrp = Inr (Inr (found, dest))"
        using \<open>match_pair E origin lrp next_lrp = Inr res\<close> Inr ok by simp
      from match_pair_found[OF mp]
      have nofail: "\<not> pair_fails E origin lrp next_lrp"
        and dest: "dest = hd (Search E (coord_for_lrp next_lrp))" by simp_all
      have "i \<noteq> 0"
        using fails nofail "1.prems"(2) by (cases i) auto
      then obtain j where j: "i = Suc j" by (cases i) auto
      have loop: "match_loop E (next_lrp # rest) dest (edges @ found) = Inr r"
        using "1.prems"(1) mp by simp
      have ex: "list_ex (\<lambda>i. pair_fails E (hd (Search E (coord_for_lrp ((next_lrp # rest) ! i))))
                   ((next_lrp # rest) ! i) ((next_lrp # rest) ! Suc i))
                 [0..<length (next_lrp # rest) - 1]"
        unfolding list_ex_iff
      proof (rule bexI[of _ j])
        show "pair_fails E (hd (Search E (coord_for_lrp ((next_lrp # rest) ! j))))
                 ((next_lrp # rest) ! j) ((next_lrp # rest) ! Suc j)"
          using fails j by simp
        show "j \<in> set [0..<length (next_lrp # rest) - 1]" using i j by auto
      qed
      show ?thesis
        using "1.IH"[OF mp[symmetric, THEN sym] _ _ loop _ ex] dest
        by simp
    qed
  qed
qed (simp_all add: list_ex_iff)


text \<open>
  C2. When no assertion ends the program during the matching of a segment and a step of
  the matching fails (no candidate at the first point, or for some pair of neighbouring
  reference points one of the five failures of \<open>pair_fails\<close>), \<open>match_edges\<close> returns the
  empty sequence and has logged one warning; \<open>match_segment\<close> then adds one more warning
  and changes nothing else in the state, so no record is handed over and no chunk is
  stored; and \<open>add_tile\<close> goes on with the entries that follow.
\<close>

theorem failed_match_discards:
  assumes m: "match_edges E seg = Inr (logged, edges)"
      and f: "segment_fails E seg"
  shows "edges = [] \<and> length logged = 1
     \<and> match_segment E sid seg st =
         Inr (st\<lparr>warnings := warnings st @ logged @ [UnableToMatchSegment sid]\<rparr>)
     \<and> add_entries E base_id n (SegmentEntry seg # rest) st =
         add_entries E base_id (n + 1) rest
           (st\<lparr>warnings := warnings st @ logged @
                 [UnableToMatchSegment (GraphId_plus E base_id (of_nat n))]\<rparr>)"
proof -
  have two: "2 \<le> length (lrps seg)"
    using m by (auto simp: match_edges_def split: if_splits)
  have res: "edges = [] \<and> length logged = 1"
  proof (cases "Search E (coord_for_lrp (lrps seg ! 0)) = []")
    case True
    then show ?thesis using m two by (auto simp: match_edges_def Let_def)
  next
    case False
    then have o: "Search E (coord_for_lrp (lrps seg ! 0)) ! 0
        = hd (Search E (coord_for_lrp (hd (lrps seg))))"
      using two by (cases "lrps seg") (simp_all add: hd_conv_nth)
    from f False have ex: "list_ex (\<lambda>i. pair_fails E (hd (Search E (coord_for_lrp (lrps seg ! i))))
                  (lrps seg ! i) (lrps seg ! Suc i)) [0..<length (lrps seg) - 1]"
      by (simp add: segment_fails_def)
    obtain r where r: "match_loop E (lrps seg) (Search E (coord_for_lrp (lrps seg ! 0)) ! 0) [] = Inr r"
      using m two False by (auto simp: match_edges_def Let_def split: sum.splits)
    from match_loop_fails[OF r o ex] obtain w where "r = Inl w" by blast
    then show ?thesis using m two False r by (auto simp: match_edges_def Let_def)
  qed
  then have ms: "match_segment E sid seg st =
         Inr (st\<lparr>warnings := warnings st @ logged @ [UnableToMatchSegment sid]\<rparr>)" for sid
    using m by (simp add: match_segment_def)
  show ?thesis using res ms by simp
qed

text \<open>
  The segment from \<open>A\<close> to a point with no edge near it, and the segment that reaches
  \<open>B\<close> first: its first step succeeds, its second fails.
\<close>

lemma ex_lost_fails: "segment_fails ex_env ex_seg_lost"
  by code_simp

lemma ex_lost_match:
  "match_edges ex_env ex_seg_lost = Inr ([NoEdgeNearPoint (Fin (1 / 2000), Fin (1 / 2000))], [])"
  by code_simp

lemma ex_AB_lost_fails: "segment_fails ex_env ex_seg_AB_lost"
  by code_simp

lemma ex_AB_lost_match:
  "match_edges ex_env ex_seg_AB_lost = Inr ([NoEdgeNearPoint (Fin (1 / 2000), Fin (1 / 2000))], [])"
  by code_simp

theorem failed_match_discards_witness:
  "match_edges ex_env ex_seg_lost = Inr ([NoEdgeNearPoint (Fin (1 / 2000), Fin (1 / 2000))], [])
   \<and> segment_fails ex_env ex_seg_lost
   \<and> match_segment ex_env 2 ex_seg_lost new_edge_association =
       Inr (new_edge_association\<lparr>warnings :=
              [NoEdgeNearPoint (Fin (1 / 2000), Fin (1 / 2000)), UnableToMatchSegment 2]\<rparr>)
   \<and> segment_fails ex_env ex_seg_AB_lost
   \<and> match_segment ex_env 3 ex_seg_AB_lost new_edge_association =
       Inr (new_edge_association\<lparr>warnings :=
              [NoEdgeNearPoint (Fin (1 / 2000), Fin (1 / 2000)), UnableToMatchSegment 3]\<rparr>)"
  using failed_match_discards [OF ex_lost_match ex_lost_fails, of 2 new_edge_association]
    failed_match_discards [OF ex_AB_lost_match ex_AB_lost_fails, of 3 new_edge_association]
    ex_lost_match ex_lost_fails ex_AB_lost_fails
  by (simp add: new_edge_association_def)

subsection \<open>Chopping a polyline\<close>

lemma polyline_length_nonneg:
  "\<forall>a b. 0 \<le> D a b \<Longrightarrow> 0 \<le> polyline_length D seg"
proof (induction D seg rule: polyline_length.induct)
  case (1 D a b rest)
  have "0 \<le> D a b" using "1.prems" by blast
  moreover have "0 \<le> polyline_length D (b # rest)" using 1 by blast
  ultimately show ?case by simp
qed simp_all

lemma chop_loop_beyond:
  "\<forall>a b. 0 \<le> D a b \<Longrightarrow> d + polyline_length D seg < c \<Longrightarrow>
   chop_loop D c d seg result = (result @ tl seg, [])"
proof (induction D c d seg result rule: chop_loop.induct)
  case (1 D c d a b rest result)
  have "0 \<le> polyline_length D (b # rest)"
    using "1.prems"(1) by (rule polyline_length_nonneg)
  then have less: "d + D a b < c" using "1.prems"(2) by simp
  have "chop_loop D c (d + D a b) (b # rest) (result @ [b]) = ((result @ [b]) @ tl (b # rest), [])"
    using "1.IH"[OF refl _ "1.prems"(1)] less "1.prems"(2) by (simp add: add.assoc)
  then show ?case using less by simp
qed simp_all

lemma chop_loop_within:
  "2 \<le> length seg \<Longrightarrow> c \<le> d + polyline_length D seg \<Longrightarrow>
   2 \<le> length (snd (chop_loop D c d seg result))"
proof (induction D c d seg result rule: chop_loop.induct)
  case (1 D c d a b rest result)
  show ?case
  proof (cases "c \<le> d + D a b")
    case True
    then show ?thesis by (simp add: Let_def)
  next
    case False
    then have "rest \<noteq> []" using "1.prems"(2) by (cases rest) auto
    then have two: "2 \<le> length (b # rest)" by (cases rest) auto
    have "2 \<le> length (snd (chop_loop D c (d + D a b) (b # rest) (result @ [b])))"
      using "1.IH"[OF refl _ two] False "1.prems"(2) by (simp add: add.assoc)
    then show ?thesis using False by simp
  qed
qed simp_all

text \<open>
  C4, amended. For a sequence of at least two points: when no distance is negative and
  the length to chop is greater than the length of the polyline, \<open>chop_subsegment\<close>
  returns the whole sequence and leaves the input empty; and when the first two points
  are finite and a positive distance apart, chopping 0 returns the first point twice and
  leaves the input as it was.
\<close>

theorem chop_beyond_and_zero:
  assumes two: "2 \<le> length seg"
  shows "((\<forall>a b. 0 \<le> D a b) \<and> polyline_length D seg < real (unat chop)
            \<longrightarrow> chop_subsegment D seg chop = Inr (seg, []))
     \<and> (finite_point (seg ! 0) \<and> finite_point (seg ! 1) \<and> 0 < D (seg ! 0) (seg ! 1)
            \<longrightarrow> chop_subsegment D seg 0 = Inr ([seg ! 0, seg ! 0], seg))"
proof (intro conjI impI)
  assume a: "(\<forall>a b. 0 \<le> D a b) \<and> polyline_length D seg < real (unat chop)"
  obtain p rest where seg: "seg = p # rest" using two by (cases seg) auto
  have "chop_loop D (real (unat chop)) 0 seg [seg ! 0] = ([seg ! 0] @ tl seg, [])"
    using a by (intro chop_loop_beyond) simp_all
  then show "chop_subsegment D seg chop = Inr (seg, [])"
    using two seg by (auto simp: chop_subsegment_def)
next
  assume b: "finite_point (seg ! 0) \<and> finite_point (seg ! 1) \<and> 0 < D (seg ! 0) (seg ! 1)"
  obtain p q rest where seg: "seg = p # q # rest"
    using two by (cases seg; cases "tl seg") auto
  obtain x0 y0 where p: "p = (Fin x0, Fin y0)"
    using b seg by (cases p rule: finite_point.cases) auto
  obtain x1 y1 where q: "q = (Fin x1, Fin y1)"
    using b seg by (cases q rule: finite_point.cases) auto
  have "interp p q (fdiv 0 (D p q)) = p"
    using b seg by (simp add: p q interp_def AffineCombination_def fdiv_def)
  then show "chop_subsegment D seg 0 = Inr ([seg ! 0, seg ! 0], seg)"
    using b seg by (simp add: chop_subsegment_def Let_def)
qed

text \<open>The polyline from \<open>A\<close> over \<open>B\<close> to \<open>C\<close> is 40 m long.\<close>

lemma ex_metres_nonneg: "\<forall>a b. 0 \<le> ex_metres a b"
proof (intro allI)
  fix a b show "0 \<le> ex_metres a b"
    by (cases "(a, b)" rule: ex_metres.cases) simp_all
qed

theorem chop_beyond_and_zero_witness:
  "chop_subsegment ex_metres [ex_A, ex_B, ex_C] 41 = Inr ([ex_A, ex_B, ex_C], [])
   \<and> chop_subsegment ex_metres [ex_A, ex_B, ex_C] 0 = Inr ([ex_A, ex_A], [ex_A, ex_B, ex_C])"
proof -
  have two: "2 \<le> length [ex_A, ex_B, ex_C]" by simp
  have len: "polyline_length ex_metres [ex_A, ex_B, ex_C] < real (unat (41 :: 32 word))"
    by (simp add: ex_A_def ex_B_def ex_C_def)
  have fin: "finite_point ([ex_A, ex_B, ex_C] ! 0) \<and> finite_point ([ex_A, ex_B, ex_C] ! 1)
      \<and> 0 < ex_metres ([ex_A, ex_B, ex_C] ! 0) ([ex_A, ex_B, ex_C] ! 1)"
    by (simp add: ex_A_def ex_B_def)
  from chop_beyond_and_zero [OF two, of ex_metres 41] ex_metres_nonneg len fin
  show ?thesis by simp
qed

text \<open>
  C4 as stated fails in two places. Chopping exactly the length of the polyline (30 m of
  the 30 m from \<open>A\<close> to \<open>B\<close>) stops in the last pass of the loop: the input is left with
  two points, not empty. And chopping 0 from a polyline whose first two points are the
  same divides 0 by 0: the point returned after the first point is not a point at all.
\<close>

theorem chop_at_length_or_on_a_double_point:
  "polyline_length ex_metres [ex_A, ex_B] = 30
   \<and> chop_subsegment ex_metres [ex_A, ex_B] 30 = Inr ([ex_A, ex_B], [ex_B, ex_B])
   \<and> chop_subsegment ex_metres [ex_A, ex_A, ex_B] 0
        = Inr ([ex_A, (NonFin, NonFin)], [(NonFin, NonFin), ex_A, ex_B])"
  by (simp add: chop_subsegment_def ex_A_def ex_B_def interp_def AffineCombination_def fdiv_def Let_def)


text \<open>
  C10, amended. Where \<open>bearing(tile, edge_id, dist)\<close> chops (\<open>dist > 0\<close>, and the product
  of \<open>dist\<close> and the edge length converts to the whole number \<open>chop\<close>): the assertion of
  \<open>chop_subsegment\<close> fails exactly when the shape has fewer than two points; for a shape
  of at least two points whose length is at least \<open>chop\<close>, the shape handed on to
  \<open>bearing(shape)\<close> has at least two points; and for a shape of at least two points whose
  length is less than \<open>chop\<close> (no distance being negative), the shape handed on is empty.
\<close>

theorem chop_needs_two_points_and_room:
  assumes off: "0 < offset"
      and conv: "to_uint32 (offset * edge_metres E edge_id) = Inr chop"
  shows "(chopped_shape E edge_id offset = Inl AssertionFailed \<longleftrightarrow> length (edge_shape E edge_id) < 2)
     \<and> (2 \<le> length (edge_shape E edge_id) \<and>
          real (unat chop) \<le> polyline_length (Distance E) (edge_shape E edge_id)
          \<longrightarrow> (\<exists>rest. chopped_shape E edge_id offset = Inr rest \<and> 2 \<le> length rest))
     \<and> (2 \<le> length (edge_shape E edge_id) \<and> (\<forall>a b. 0 \<le> Distance E a b) \<and>
          polyline_length (Distance E) (edge_shape E edge_id) < real (unat chop)
          \<longrightarrow> chopped_shape E edge_id offset = Inr [] \<and>
              bearing_edge E edge_id offset = bearing E [])"
proof -
  have cs: "chopped_shape E edge_id offset =
      (case chop_subsegment (Distance E) (edge_shape E edge_id) chop of
         Inl f \<Rightarrow> Inl f | Inr (chopped, shape) \<Rightarrow> Inr shape)"
    using off conv by (simp add: chopped_shape_def edge_shape_def edge_metres_def Let_def)
  have a: "chopped_shape E edge_id offset = Inl AssertionFailed \<longleftrightarrow> length (edge_shape E edge_id) < 2"
    unfolding cs by (auto simp: chop_subsegment_def split: prod.splits)
  have b: "\<exists>rest. chopped_shape E edge_id offset = Inr rest \<and> 2 \<le> length rest"
    if "2 \<le> length (edge_shape E edge_id)"
       "real (unat chop) \<le> polyline_length (Distance E) (edge_shape E edge_id)"
    using chop_loop_within[of "edge_shape E edge_id" "real (unat chop)" 0 "Distance E"
            "[edge_shape E edge_id ! 0]"] that
    unfolding cs by (auto simp: chop_subsegment_def split: prod.splits)
  have c: "chopped_shape E edge_id offset = Inr [] \<and> bearing_edge E edge_id offset = bearing E []"
    if "2 \<le> length (edge_shape E edge_id)" "\<forall>a b. 0 \<le> Distance E a b"
       "polyline_length (Distance E) (edge_shape E edge_id) < real (unat chop)"
  proof -
    have "chop_loop (Distance E) (real (unat chop)) 0 (edge_shape E edge_id) [edge_shape E edge_id ! 0]
        = ([edge_shape E edge_id ! 0] @ tl (edge_shape E edge_id), [])"
      using that by (intro chop_loop_beyond) simp_all
    then have "chopped_shape E edge_id offset = Inr []"
      unfolding cs using that(1) by (simp add: chop_subsegment_def)
    then show ?thesis by (simp add: bearing_edge_def)
  qed
  show ?thesis using a b c by blast
qed

text \<open>Edge 1 of the small graph, chopped at its far end and beyond it.\<close>

lemma ex_conv: "to_uint32 (1 * edge_metres ex_env 1) = Inr 30"
  by (simp add: to_uint32_def edge_metres_def ex_env_def ex_road_def)

lemma ex_conv_beyond: "to_uint32 (2 * edge_metres ex_env 1) = Inr 60"
  by (simp add: to_uint32_def edge_metres_def ex_env_def ex_road_def)

theorem chop_needs_two_points_and_room_witness:
  "(0::real) < 1 \<and> to_uint32 (1 * edge_metres ex_env 1) = Inr 30
   \<and> (\<exists>rest. chopped_shape ex_env 1 1 = Inr rest \<and> 2 \<le> length rest)
   \<and> chopped_shape ex_env 1 2 = Inr []"
proof -
  have off: "(0::real) < 1" by simp
  have off2: "(0::real) < 2" by simp
  have beyond: "2 \<le> length (edge_shape ex_env 1) \<and> (\<forall>a b. 0 \<le> Distance ex_env a b) \<and>
          polyline_length (Distance ex_env) (edge_shape ex_env 1) < real (unat (60 :: 32 word))"
    using ex_metres_nonneg by (simp add: edge_shape_def ex_env_def ex_road_def ex_A_def ex_B_def)
  from chop_needs_two_points_and_room [OF off2 ex_conv_beyond] beyond
  have far: "chopped_shape ex_env 1 2 = Inr []" by blast
  have room: "2 \<le> length (edge_shape ex_env 1) \<and>
          real (unat (30 :: 32 word)) \<le> polyline_length (Distance ex_env) (edge_shape ex_env 1)"
    by (simp add: edge_shape_def ex_env_def ex_road_def ex_A_def ex_B_def)
  from chop_needs_two_points_and_room [OF off ex_conv] room off ex_conv far
  show ?thesis by blast
qed

text \<open>
  C10 as stated fails where the product meets the length of the shape: for edge 1, 30 m
  long with a shape of 30 m, and \<open>dist = 1\<close>, the shape handed on is not empty.
\<close>

theorem chop_at_shape_length_leaves_points:
  "to_uint32 (1 * edge_metres ex_env 1) = Inr 30
   \<and> polyline_length (Distance ex_env) (edge_shape ex_env 1) = 30
   \<and> chopped_shape ex_env 1 1 = Inr [ex_B, ex_B]"
  by code_simp

subsection \<open>Bearing\<close>

text \<open>The bearing returned is never more than 360.\<close>

lemma bearing_at_most_360:
  assumes "bearing E shape = Inr b"
  shows "unat b \<le> 360"
proof -
  from assms obtain h where h: "HeadingAlongPolyline E shape 20 = Fin h" "0 \<le> h" "h < 360"
     "b = word_of_int (round h)"
    by (auto simp: bearing_def split: fl.splits if_splits)
  have "0 \<le> round h" "round h \<le> 360" using h(2,3) by (auto simp: round_def)
  then have "unat b = nat (round h)" using h(4)
    by (simp add: unat_eq_nat_uint uint_word_of_int take_bit_int_eq_self)
  then show ?thesis using \<open>round h \<le> 360\<close> by linarith
qed

text \<open>
  C5 fails on the code: a heading of 359.5 degrees or more passes both assertions and is
  rounded up to 360. Here for a street that runs a little west of north.
\<close>

theorem bearing_rounds_up_to_360:
  "bearing ex_env_nnw [ex_A, ex_NNW] = Inr 360"
  by (simp add: bearing_def ex_env_nnw_def ex_env_def round_def)

subsection \<open>Exit status\<close>

text \<open>
  C7, amended. \<open>main\<close> returns failure when parsing the command line throws; success when
  help is asked for or no configuration is given; success when the version is asked for;
  failure when a configuration is given, neither help nor version is asked for and the
  tile directory is missing; and success when everything is given, the configuration can
  be read and all tiles are worked through.
\<close>

theorem main_exit_status:
  "main E None rc dir = Inr EXIT_FAILURE
   \<and> (count_help vm \<or> \<not> count_config vm \<longrightarrow> main E (Some vm) rc dir = Inr EXIT_SUCCESS)
   \<and> (count_version vm \<and> count_config vm \<longrightarrow> main E (Some vm) rc dir = Inr EXIT_SUCCESS)
   \<and> (\<not> count_help vm \<and> count_config vm \<and> \<not> count_version vm \<and> \<not> count_osmlr_tile_dir vm
        \<longrightarrow> main E (Some vm) rc dir = Inr EXIT_FAILURE)
   \<and> (\<not> count_help vm \<and> count_config vm \<and> \<not> count_version vm \<and> count_osmlr_tile_dir vm
        \<and> rc (config vm) \<and> (\<exists>e. add_tiles E (dir (tile_dir vm)) new_edge_association = Inr e)
        \<longrightarrow> main E (Some vm) rc dir = Inr EXIT_SUCCESS)"
  by (auto simp: main_def)

text \<open>Four command lines: help, version, no tile directory, and a full run.\<close>

lemma ex_run_returns: "\<not> isl (add_tiles ex_env (ex_directory ''tiles'') new_edge_association)"
  by code_simp

lemma ex_run: "\<exists>e. add_tiles ex_env (ex_directory ''tiles'') new_edge_association = Inr e"
  using ex_run_returns
  by (cases "add_tiles ex_env (ex_directory ''tiles'') new_edge_association") simp_all

theorem main_exit_status_witness:
  "main ex_env (Some (ex_vm True False False False)) ex_read_config ex_directory = Inr EXIT_SUCCESS
   \<and> main ex_env (Some (ex_vm False True False True)) ex_read_config ex_directory = Inr EXIT_SUCCESS
   \<and> main ex_env (Some (ex_vm False False False True)) ex_read_config ex_directory = Inr EXIT_FAILURE
   \<and> main ex_env (Some (ex_vm False False True True)) ex_read_config ex_directory = Inr EXIT_SUCCESS"
  using main_exit_status [of ex_env ex_read_config ex_directory "ex_vm True False False False"]
    main_exit_status [of ex_env ex_read_config ex_directory "ex_vm False True False True"]
    main_exit_status [of ex_env ex_read_config ex_directory "ex_vm False False False True"]
    main_exit_status [of ex_env ex_read_config ex_directory "ex_vm False False True True"]
    ex_run
  by (simp add: ex_vm_def ex_read_config_def)

text \<open>
  C7 as stated fails for a command line that parses, names a configuration and no tile
  directory: the exit status is failure.
\<close>

theorem main_fails_without_tile_dir:
  "main ex_env (Some (ex_vm False False False True)) ex_read_config ex_directory = Inr EXIT_FAILURE"
  by (simp add: main_def ex_vm_def)

end
